theory Spec2Isabelle
  imports Main "HOL-Library.Word"
begin

section \<open>The contract HealthInspectFHE\<close>

text \<open>
  A shallow embedding of the Solidity contract \<^verbatim>\<open>HealthInspectFHE\<close>
  (compiled with \<^verbatim>\<open>pragma solidity ^0.8.24\<close>, so arithmetic is checked: an overflow or an
  underflow reverts with \<^verbatim>\<open>Panic(0x11)\<close>, an array index out of range with
  \<^verbatim>\<open>Panic(0x32)\<close>). A \<^verbatim>\<open>mapping\<close> is a total function whose default value is zero.
  A call either succeeds with the new storage (\<open>Inr\<close>) or reverts (\<open>Inl\<close>).
\<close>

subsection \<open>Types\<close>

type_synonym uint256 = "256 word"
type_synonym uint32 = "32 word"
type_synonym bytes32 = "256 word"
type_synonym bytes = "8 word list"

text \<open>\<^verbatim>\<open>euint32\<close> is a handle of the FHE library: a \<^verbatim>\<open>bytes32\<close> value, zero when uninitialised.\<close>

type_synonym euint32 = bytes32

record InspectionReport =
  encryptedRestaurantId :: euint32
  encryptedHygieneScore :: euint32
  encryptedFoodSafetyScore :: euint32
  encryptedFacilityScore :: euint32
  encryptedLocationCode :: euint32
  timestamp :: uint256

record RiskAnalysis =
  encryptedRiskScore :: euint32
  encryptedPriorityLevel :: euint32
  isRevealed :: bool

record AreaStats =
  encryptedAvgHygiene :: euint32
  encryptedRiskCount :: euint32

datatype event =
    ReportSubmitted uint256 uint256
  | AnalysisRequested uint256
  | RiskIdentified uint256
  | AnalysisRevealed uint256

text \<open>The callback a decryption request names (\<^verbatim>\<open>this.f.selector\<close>).\<close>

datatype selector = calculateRiskScore_selector | decryptAnalysis_selector | decryptAreaStats_selector

text \<open>
  The storage of the contract, in the order of its declarations, followed by the two
  effects a call has outside the storage: the events it emits and the decryption requests
  it sends to the oracle (request id, ciphertext handles, callback), both oldest first.
\<close>

record contract =
  reportCount :: uint256
  analysisCount :: uint256
  inspectionReports :: "uint256 \<Rightarrow> InspectionReport"
  riskAnalyses :: "uint256 \<Rightarrow> RiskAnalysis"
  areaStatistics :: "uint32 \<Rightarrow> AreaStats"
  requestToReportId :: "uint256 \<Rightarrow> uint256"
  requestToAnalysisId :: "uint256 \<Rightarrow> uint256"
  emitted :: "event list"
  decryptionRequests :: "(uint256 \<times> bytes32 list \<times> selector) list"

text \<open>
  The reasons a call reverts: a failed \<^verbatim>\<open>require\<close> with its message, a \<^verbatim>\<open>Panic\<close> with
  its code, a rejected proof in \<^verbatim>\<open>FHE.checkSignatures\<close>, and a payload that
  \<^verbatim>\<open>abi.decode\<close> rejects. In the words of the specification, \<^verbatim>\<open>Invalid report ID\<close>,
  \<^verbatim>\<open>Invalid analysis ID\<close> and \<^verbatim>\<open>No data for area\<close> are \<^verbatim>\<open>UnknownTarget\<close>,
  \<^verbatim>\<open>Invalid request\<close> is \<^verbatim>\<open>UnknownOrReplayedRequest\<close>, and \<^verbatim>\<open>Already revealed\<close> is
  \<^verbatim>\<open>AlreadyRevealed\<close>.
\<close>

datatype error =
    Require string
  | Panic nat
  | InvalidProof
  | MalformedPayload

subsection \<open>The external collaborators\<close>

text \<open>
  The FHE library (\<^verbatim>\<open>@fhevm/solidity/lib/FHE.sol\<close>) is not part of the repository. The
  operations of it that the contract calls are parameters of the model: the trivial
  encryption \<^verbatim>\<open>FHE.asEuint32\<close>, the homomorphic \<^verbatim>\<open>FHE.add\<close>, and
  \<^verbatim>\<open>FHE.checkSignatures\<close>, which reverts unless it holds. \<^verbatim>\<open>FHE.toBytes32\<close> unwraps a
  handle and is the identity here. The request id that \<^verbatim>\<open>FHE.requestDecryption\<close> returns
  is chosen by the oracle and is an argument of each dispatching function. The decoder of
  \<^verbatim>\<open>abi.decode(cleartexts, (uint32[]))\<close> is a parameter too: \<open>None\<close> is a revert.
\<close>

record externals =
  asEuint32 :: "uint32 \<Rightarrow> euint32"
  fhe_add :: "euint32 \<Rightarrow> euint32 \<Rightarrow> euint32"
  checkSignatures :: "uint256 \<Rightarrow> bytes \<Rightarrow> bytes \<Rightarrow> bool"
  abi_decode :: "bytes \<Rightarrow> uint32 list option"

subsection \<open>Checked arithmetic\<close>

definition checked_inc :: "uint256 \<Rightarrow> error + uint256" where
  "checked_inc x = (if x = - 1 then Inl (Panic 0x11) else Inr (x + 1))"

definition checked_sub :: "uint32 \<Rightarrow> uint32 \<Rightarrow> uint32 option" where
  "checked_sub a b = (if a < b then None else Some (a - b))"

definition checked_add :: "uint32 \<Rightarrow> uint32 \<Rightarrow> uint32 option" where
  "checked_add a b = (if unat a + unat b < 2 ^ 32 then Some (a + b) else None)"

text \<open>
  Lines 92 to 96 of the contract:
  \<^verbatim>\<open>riskScore = (100 - hygieneScore) + (100 - foodSafetyScore) + (100 - facilityScore)\<close>
  in checked \<^verbatim>\<open>uint32\<close> arithmetic (\<open>None\<close> is the panic), and
  \<^verbatim>\<open>priorityLevel = riskScore > 150 ? 3 : riskScore > 100 ? 2 : 1\<close>.
\<close>

definition riskScore :: "uint32 \<Rightarrow> uint32 \<Rightarrow> uint32 \<Rightarrow> uint32 option" where
  "riskScore hygieneScore foodSafetyScore facilityScore =
     (case checked_sub 100 hygieneScore of None \<Rightarrow> None | Some a \<Rightarrow>
      case checked_sub 100 foodSafetyScore of None \<Rightarrow> None | Some b \<Rightarrow>
      case checked_add a b of None \<Rightarrow> None | Some ab \<Rightarrow>
      case checked_sub 100 facilityScore of None \<Rightarrow> None | Some c \<Rightarrow>
      checked_add ab c)"

definition priorityLevel :: "uint32 \<Rightarrow> uint32" where
  "priorityLevel r = (if r > 150 then 3 else if r > 100 then 2 else 1)"

subsection \<open>The functions of the contract\<close>

definition init :: contract where
  "init = \<lparr> reportCount = 0, analysisCount = 0,
      inspectionReports = (\<lambda>_. \<lparr> encryptedRestaurantId = 0, encryptedHygieneScore = 0,
        encryptedFoodSafetyScore = 0, encryptedFacilityScore = 0,
        encryptedLocationCode = 0, timestamp = 0 \<rparr>),
      riskAnalyses = (\<lambda>_. \<lparr> encryptedRiskScore = 0, encryptedPriorityLevel = 0,
        isRevealed = False \<rparr>),
      areaStatistics = (\<lambda>_. \<lparr> encryptedAvgHygiene = 0, encryptedRiskCount = 0 \<rparr>),
      requestToReportId = (\<lambda>_. 0), requestToAnalysisId = (\<lambda>_. 0),
      emitted = [], decryptionRequests = [] \<rparr>"

text \<open>\<open>now\<close> is \<^verbatim>\<open>block.timestamp\<close>.\<close>

definition submitInspectionReport ::
  "uint256 \<Rightarrow> euint32 \<Rightarrow> euint32 \<Rightarrow> euint32 \<Rightarrow> euint32 \<Rightarrow> euint32 \<Rightarrow> contract \<Rightarrow> error + contract" where
  "submitInspectionReport now restaurantId hygieneScore foodSafetyScore facilityScore locationCode s =
     (case checked_inc (reportCount s) of Inl e \<Rightarrow> Inl e | Inr n \<Rightarrow>
      Inr (s\<lparr> reportCount := n,
          inspectionReports := (inspectionReports s)(n :=
            \<lparr> encryptedRestaurantId = restaurantId, encryptedHygieneScore = hygieneScore,
              encryptedFoodSafetyScore = foodSafetyScore, encryptedFacilityScore = facilityScore,
              encryptedLocationCode = locationCode, timestamp = now \<rparr>),
          emitted := emitted s @ [ReportSubmitted n now] \<rparr>))"

text \<open>\<open>reqId\<close> is what \<^verbatim>\<open>FHE.requestDecryption\<close> returns.\<close>

definition requestRiskAnalysis :: "uint256 \<Rightarrow> uint256 \<Rightarrow> contract \<Rightarrow> error + contract" where
  "requestRiskAnalysis reqId reportId s =
     (if \<not> reportId \<le> reportCount s then Inl (Require ''Invalid report ID'')
      else
        let ciphertexts =
              [encryptedHygieneScore (inspectionReports s reportId),
               encryptedFoodSafetyScore (inspectionReports s reportId),
               encryptedFacilityScore (inspectionReports s reportId),
               encryptedLocationCode (inspectionReports s reportId)]
        in Inr (s\<lparr> requestToReportId := (requestToReportId s)(reqId := reportId),
              emitted := emitted s @ [AnalysisRequested reportId],
              decryptionRequests := decryptionRequests s @
                [(reqId, ciphertexts, calculateRiskScore_selector)] \<rparr>))"

text \<open>
  The update of the area statistics, lines 105 to 123: the entry is set to two
  encryptions of zero when its hygiene handle equals \<^verbatim>\<open>FHE.asEuint32(0)\<close>, the
  hygiene score is added, and one is added to the risk count when the score exceeds 100.
\<close>

definition updateAreaStatistics ::
  "externals \<Rightarrow> uint32 \<Rightarrow> uint32 \<Rightarrow> uint32 \<Rightarrow> (uint32 \<Rightarrow> AreaStats) \<Rightarrow> (uint32 \<Rightarrow> AreaStats)" where
  "updateAreaStatistics ext locationCode hygieneScore risk areas =
     (let areas1 =
            (if encryptedAvgHygiene (areas locationCode) = asEuint32 ext 0
             then areas(locationCode :=
                    \<lparr> encryptedAvgHygiene = asEuint32 ext 0, encryptedRiskCount = asEuint32 ext 0 \<rparr>)
             else areas);
          areas2 = areas1(locationCode := (areas1 locationCode)
                    \<lparr> encryptedAvgHygiene :=
                        fhe_add ext (encryptedAvgHygiene (areas1 locationCode))
                          (asEuint32 ext hygieneScore) \<rparr>)
      in if risk > 100
         then areas2(locationCode := (areas2 locationCode)
                \<lparr> encryptedRiskCount :=
                    fhe_add ext (encryptedRiskCount (areas2 locationCode)) (asEuint32 ext 1) \<rparr>)
         else areas2)"

definition calculateRiskScore ::
  "externals \<Rightarrow> uint256 \<Rightarrow> bytes \<Rightarrow> bytes \<Rightarrow> contract \<Rightarrow> error + contract" where
  "calculateRiskScore ext requestId cleartexts proof s =
     (let reportId = requestToReportId s requestId in
      if \<not> reportId \<noteq> 0 then Inl (Require ''Invalid request'')
      else if \<not> checkSignatures ext requestId cleartexts proof then Inl InvalidProof
      else case abi_decode ext cleartexts of None \<Rightarrow> Inl MalformedPayload | Some scores \<Rightarrow>
        (case scores of
           hygieneScore # foodSafetyScore # facilityScore # locationCode # _ \<Rightarrow>
             (case riskScore hygieneScore foodSafetyScore facilityScore of
                None \<Rightarrow> Inl (Panic 0x11)
              | Some risk \<Rightarrow>
                 (case checked_inc (analysisCount s) of Inl e \<Rightarrow> Inl e | Inr n \<Rightarrow>
                  Inr (s\<lparr> analysisCount := n,
                      riskAnalyses := (riskAnalyses s)(n :=
                        \<lparr> encryptedRiskScore = asEuint32 ext risk,
                          encryptedPriorityLevel = asEuint32 ext (priorityLevel risk),
                          isRevealed = False \<rparr>),
                      areaStatistics :=
                        updateAreaStatistics ext locationCode hygieneScore risk (areaStatistics s),
                      emitted := emitted s @ [RiskIdentified n] \<rparr>)))
         | _ \<Rightarrow> Inl (Panic 0x32)))"

definition requestAnalysisDecryption :: "uint256 \<Rightarrow> uint256 \<Rightarrow> contract \<Rightarrow> error + contract" where
  "requestAnalysisDecryption reqId analysisId s =
     (if \<not> analysisId \<le> analysisCount s then Inl (Require ''Invalid analysis ID'')
      else if \<not> \<not> isRevealed (riskAnalyses s analysisId) then Inl (Require ''Already revealed'')
      else
        let ciphertexts =
              [encryptedRiskScore (riskAnalyses s analysisId),
               encryptedPriorityLevel (riskAnalyses s analysisId)]
        in Inr (s\<lparr> requestToAnalysisId := (requestToAnalysisId s)(reqId := analysisId),
              decryptionRequests := decryptionRequests s @
                [(reqId, ciphertexts, decryptAnalysis_selector)] \<rparr>))"

definition decryptAnalysis ::
  "externals \<Rightarrow> uint256 \<Rightarrow> bytes \<Rightarrow> bytes \<Rightarrow> contract \<Rightarrow> error + contract" where
  "decryptAnalysis ext requestId cleartexts proof s =
     (let analysisId = requestToAnalysisId s requestId in
      if \<not> analysisId \<noteq> 0 then Inl (Require ''Invalid request'')
      else if \<not> checkSignatures ext requestId cleartexts proof then Inl InvalidProof
      else case abi_decode ext cleartexts of None \<Rightarrow> Inl MalformedPayload | Some results \<Rightarrow>
        Inr (s\<lparr> riskAnalyses := (riskAnalyses s)(analysisId :=
                  (riskAnalyses s analysisId)\<lparr> isRevealed := True \<rparr>),
              emitted := emitted s @ [AnalysisRevealed analysisId] \<rparr>))"

definition requestAreaStats ::
  "externals \<Rightarrow> uint256 \<Rightarrow> uint32 \<Rightarrow> contract \<Rightarrow> error + contract" where
  "requestAreaStats ext reqId locationCode s =
     (if \<not> encryptedAvgHygiene (areaStatistics s locationCode) \<noteq> asEuint32 ext 0
      then Inl (Require ''No data for area'')
      else
        let ciphertexts =
              [encryptedAvgHygiene (areaStatistics s locationCode),
               encryptedRiskCount (areaStatistics s locationCode)]
        in Inr (s\<lparr> requestToAnalysisId := (requestToAnalysisId s)(reqId := ucast locationCode),
              decryptionRequests := decryptionRequests s @
                [(reqId, ciphertexts, decryptAreaStats_selector)] \<rparr>))"

text \<open>\<^verbatim>\<open>uint32(requestToAnalysisId[requestId])\<close> truncates to the low 32 bits.\<close>

definition decryptAreaStats ::
  "externals \<Rightarrow> uint256 \<Rightarrow> bytes \<Rightarrow> bytes \<Rightarrow> contract \<Rightarrow> error + contract" where
  "decryptAreaStats ext requestId cleartexts proof s =
     (let locationCode = (ucast (requestToAnalysisId s requestId) :: uint32) in
      if \<not> locationCode \<noteq> 0 then Inl (Require ''Invalid request'')
      else if \<not> checkSignatures ext requestId cleartexts proof then Inl InvalidProof
      else case abi_decode ext cleartexts of None \<Rightarrow> Inl MalformedPayload | Some stats \<Rightarrow>
        Inr s)"

definition getReportCount :: "contract \<Rightarrow> uint256" where
  "getReportCount s = reportCount s"

definition getAnalysisStatus :: "uint256 \<Rightarrow> contract \<Rightarrow> bool" where
  "getAnalysisStatus analysisId s = isRevealed (riskAnalyses s analysisId)"

subsection \<open>Transactions\<close>

text \<open>
  A transaction is one call of a public function. \<open>exec\<close> runs it; \<open>transact\<close> gives the
  contract after it: a revert discards every write, event and request of the call, so the
  contract is the one before the call. \<open>run\<close> is a sequence of transactions.
\<close>

datatype call =
    SubmitInspectionReport uint256 euint32 euint32 euint32 euint32 euint32
  | RequestRiskAnalysis uint256 uint256
  | CalculateRiskScore uint256 bytes bytes
  | RequestAnalysisDecryption uint256 uint256
  | DecryptAnalysis uint256 bytes bytes
  | RequestAreaStats uint256 uint32
  | DecryptAreaStats uint256 bytes bytes

fun exec :: "externals \<Rightarrow> call \<Rightarrow> contract \<Rightarrow> error + contract" where
  "exec ext (SubmitInspectionReport now r h f fa l) s = submitInspectionReport now r h f fa l s"
| "exec ext (RequestRiskAnalysis reqId reportId) s = requestRiskAnalysis reqId reportId s"
| "exec ext (CalculateRiskScore requestId cleartexts proof) s =
     calculateRiskScore ext requestId cleartexts proof s"
| "exec ext (RequestAnalysisDecryption reqId analysisId) s =
     requestAnalysisDecryption reqId analysisId s"
| "exec ext (DecryptAnalysis requestId cleartexts proof) s =
     decryptAnalysis ext requestId cleartexts proof s"
| "exec ext (RequestAreaStats reqId locationCode) s = requestAreaStats ext reqId locationCode s"
| "exec ext (DecryptAreaStats requestId cleartexts proof) s =
     decryptAreaStats ext requestId cleartexts proof s"

definition transact :: "externals \<Rightarrow> call \<Rightarrow> contract \<Rightarrow> contract" where
  "transact ext c s = (case exec ext c s of Inl e \<Rightarrow> s | Inr s' \<Rightarrow> s')"

fun run :: "externals \<Rightarrow> call list \<Rightarrow> contract \<Rightarrow> contract" where
  "run ext [] s = s"
| "run ext (c # cs) s = run ext cs (transact ext c s)"

text \<open>The request id a call registers with the oracle, if it is a dispatch.\<close>

fun dispatched :: "call \<Rightarrow> uint256 option" where
  "dispatched (RequestRiskAnalysis reqId _) = Some reqId"
| "dispatched (RequestAnalysisDecryption reqId _) = Some reqId"
| "dispatched (RequestAreaStats reqId _) = Some reqId"
| "dispatched _ = None"

subsection \<open>What the FHE library is assumed to do\<close>

text \<open>
  Modelled from the spec: the contract of the Ciphertext Handle Store (constant encoding
  and homomorphic \<open>add\<close>), whose code is the FHE library, outside the repository.
  \<open>dec\<close> is the decryption of a handle. The library is correct for it when a trivial
  encryption decrypts to its value, \<^verbatim>\<open>FHE.add\<close> adds the decrypted values in
  \<^verbatim>\<open>uint32\<close>, and the uninitialised handle stands for zero.
\<close>

definition homomorphic :: "externals \<Rightarrow> (euint32 \<Rightarrow> uint32) \<Rightarrow> bool" where
  "homomorphic ext dec \<longleftrightarrow>
     dec 0 = 0 \<and> (\<forall>n. dec (asEuint32 ext n) = n) \<and>
     (\<forall>a b. dec (fhe_add ext a b) = dec a + dec b)"

subsection \<open>A concrete instance of the collaborators\<close>

text \<open>
  An instance to run the contract on: a handle is its value, a proof is accepted when it
  is the single byte 1, and the payload is decoded as the ABI lays out a \<^verbatim>\<open>uint32[]\<close>:
  a 32-byte offset, at that offset a 32-byte length, then one 32-byte big-endian word for
  each element, which must be below \<open>2 ^ 32\<close>.
\<close>

fun be_val :: "bytes \<Rightarrow> nat" where
  "be_val bs = foldl (\<lambda>acc b. 256 * acc + unat b) 0 bs"

definition word_at :: "bytes \<Rightarrow> nat \<Rightarrow> nat" where
  "word_at bs i = be_val (take 32 (drop i bs))"

definition abi_decode_uint32_array :: "bytes \<Rightarrow> uint32 list option" where
  "abi_decode_uint32_array bs =
     (if length bs < 32 then None
      else let off = word_at bs 0 in
        if \<not> off + 31 < length bs then None
        else let n = word_at bs off in
          if length bs < off + 32 + 32 * n then None
          else let ws = map (\<lambda>i. word_at bs (off + 32 + 32 * i)) [0..<n] in
            if list_all (\<lambda>w. w < 2 ^ 32) ws then Some (map of_nat ws) else None)"

text \<open>The encoding that \<^verbatim>\<open>abi.encode\<close> gives a \<^verbatim>\<open>uint32[]\<close>, to write payloads with.\<close>

fun be_bytes :: "nat \<Rightarrow> nat \<Rightarrow> bytes" where
  "be_bytes 0 n = []"
| "be_bytes (Suc k) n = be_bytes k (n div 256) @ [of_nat n]"

definition abi_word :: "nat \<Rightarrow> bytes" where
  "abi_word n = be_bytes 32 n"

definition abi_encode_uint32_array :: "uint32 list \<Rightarrow> bytes" where
  "abi_encode_uint32_array xs =
     abi_word 32 @ abi_word (length xs) @ concat (map (\<lambda>x. abi_word (unat x)) xs)"

definition plain :: externals where
  "plain = \<lparr> asEuint32 = ucast,
      fhe_add = (\<lambda>a b. ucast ((ucast a :: uint32) + ucast b)),
      checkSignatures = (\<lambda>requestId cleartexts proof. proof = [1]),
      abi_decode = abi_decode_uint32_array \<rparr>"

definition plain_dec :: "euint32 \<Rightarrow> uint32" where
  "plain_dec h = ucast h"

subsection \<open>A scenario\<close>

text \<open>
  Three reports are submitted (two for location 1, one for location 0) and a risk
  analysis is requested for each; the oracle answers with request ids 7, 8 and 12. The
  states below follow the callbacks from there.
\<close>

definition accepted :: bytes where
  "accepted = [1]"

definition payload_70 :: bytes where
  "payload_70 = abi_encode_uint32_array [70, 10, 10, 1]"

definition payload_90 :: bytes where
  "payload_90 = abi_encode_uint32_array [90, 85, 80, 1]"

definition payload_area0 :: bytes where
  "payload_area0 = abi_encode_uint32_array [70, 10, 10, 0]"

definition payload_stats :: bytes where
  "payload_stats = abi_encode_uint32_array [70, 1]"

definition payload_analysis :: bytes where
  "payload_analysis = abi_encode_uint32_array [210, 3]"


definition requested :: contract where
  "requested = run plain
     [SubmitInspectionReport 1000 11 70 10 10 1,
      SubmitInspectionReport 1001 12 90 85 80 1,
      SubmitInspectionReport 1002 13 70 10 10 0,
      RequestRiskAnalysis 7 1, RequestRiskAnalysis 8 2, RequestRiskAnalysis 12 3] init"

definition resolved1 :: contract where
  "resolved1 = transact plain (CalculateRiskScore 7 payload_70 accepted) requested"

definition resolved2 :: contract where
  "resolved2 = transact plain (CalculateRiskScore 8 payload_90 accepted) resolved1"

definition replayed :: contract where
  "replayed = transact plain (CalculateRiskScore 7 payload_70 accepted) resolved1"

definition stats_requested :: contract where
  "stats_requested = transact plain (RequestAreaStats 9 1) resolved1"

definition crossed :: contract where
  "crossed = transact plain (DecryptAnalysis 9 payload_stats accepted) stats_requested"

definition reveal_requested :: contract where
  "reveal_requested = run plain
     [RequestAnalysisDecryption 10 1, RequestAnalysisDecryption 11 1] resolved1"

definition revealed :: contract where
  "revealed = transact plain (DecryptAnalysis 10 payload_analysis accepted) reveal_requested"

definition revealed_again :: contract where
  "revealed_again = transact plain (DecryptAnalysis 11 payload_analysis accepted) revealed"

definition area0_resolved :: contract where
  "area0_resolved = transact plain (CalculateRiskScore 12 payload_area0 accepted) requested"

definition area0_requested :: contract where
  "area0_requested = transact plain (RequestAreaStats 13 0) area0_resolved"

section \<open>Checked arithmetic and the risk score\<close>

lemma checked_inc_Inr: "checked_inc x = Inr n \<longleftrightarrow> x \<noteq> - 1 \<and> n = x + 1"
  by (auto simp: checked_inc_def)

lemma checked_inc_Inl: "checked_inc x = Inl e \<longleftrightarrow> x = - 1 \<and> e = Panic 0x11"
  by (auto simp: checked_inc_def)

lemma inc_nonzero: "x \<noteq> - 1 \<Longrightarrow> x + 1 \<noteq> (0 :: 'a::len word)"
  by (simp add: eq_neg_iff_add_eq_0)

lemma inc_no_wrap: "x \<noteq> - 1 \<Longrightarrow> unat (x + 1 :: 'a::len word) = unat x + 1"
  using unatSuc [of x] inc_nonzero [of x] by (simp add: add.commute)

lemma inc_greater: "x \<noteq> - 1 \<Longrightarrow> x < (x + 1 :: 'a::len word)"
  by (simp add: word_less_nat_alt inc_no_wrap)

lemma le_not_inc: "x \<noteq> - 1 \<Longrightarrow> i \<le> x \<Longrightarrow> i \<noteq> (x + 1 :: 'a::len word)"
  using inc_greater [of x] by auto

lemma sub_100:
  assumes "h \<le> (100 :: uint32)"
  shows "checked_sub 100 h = Some (100 - h)" and "unat (100 - h) = 100 - unat h"
  using assms by (simp_all add: checked_sub_def unat_sub word_le_nat_alt not_less)

text \<open>With the three scores at most 100 no subtraction underflows and no sum overflows.\<close>

lemma riskScore_in_range:
  assumes "h \<le> 100" and "f \<le> 100" and "fa \<le> 100"
  shows "riskScore h f fa = Some (300 - h - f - fa) \<and>
         unat (300 - h - f - fa) = 300 - unat h - unat f - unat fa"
proof -
  define a b c where "a = 100 - h" and "b = 100 - f" and "c = 100 - fa"
  have uh: "unat h \<le> 100" and uf: "unat f \<le> 100" and ufa: "unat fa \<le> 100"
    using assms by (simp_all add: word_le_nat_alt)
  have ua: "unat a = 100 - unat h" and ub: "unat b = 100 - unat f"
    and uc: "unat c = 100 - unat fa"
    by (simp_all add: a_def b_def c_def sub_100 assms)
  have sa: "checked_sub 100 h = Some a" and sb: "checked_sub 100 f = Some b"
    and sc: "checked_sub 100 fa = Some c"
    by (simp_all add: a_def b_def c_def sub_100 assms)
  have ab: "unat a + unat b < 2 ^ 32"
    using uh uf by (simp add: ua ub)
  then have uab: "unat (a + b) = unat a + unat b"
    using unat_add_lem [of a b] by simp
  have abc: "unat (a + b) + unat c < 2 ^ 32"
    using uh uf ufa by (simp add: uab ua ub uc)
  then have uabc: "unat (a + b + c) = unat (a + b) + unat c"
    using unat_add_lem [of "a + b" c] by simp
  have val: "riskScore h f fa = Some (a + b + c)"
    using ab abc by (simp add: riskScore_def sa sb sc checked_add_def)
  have num: "unat (a + b + c) = 300 - unat h - unat f - unat fa"
    using uh uf ufa by (simp add: uabc uab ua ub uc)
  have eq: "a + b + c = 300 - h - f - fa"
    by (simp add: a_def b_def c_def)
  from val num show ?thesis unfolding eq by blast
qed

lemma priorityLevel_bands:
  "priorityLevel r = (if r \<le> 100 then 1 else if r \<le> 150 then 2 else 3)"
  by (auto simp: priorityLevel_def word_le_nat_alt word_less_nat_alt)

section \<open>The concrete instance\<close>

lemma be_val_snoc: "be_val (bs @ [b]) = 256 * be_val bs + unat b"
  by simp

lemma length_be_bytes: "length (be_bytes k n) = k"
  by (induction k arbitrary: n) simp_all

lemma be_val_be_bytes: "be_val (be_bytes k n) = n mod 256 ^ k"
proof (induction k arbitrary: n)
  case 0
  then show ?case by simp
next
  case (Suc k)
  have "be_val (be_bytes (Suc k) n) =
      256 * be_val (be_bytes k (n div 256)) + unat (of_nat n :: 8 word)"
    by (simp del: be_val.simps add: be_val_snoc)
  also have "\<dots> = 256 * ((n div 256) mod 256 ^ k) + n mod 256"
    by (simp del: be_val.simps add: Suc.IH unat_of_nat)
  also have "\<dots> = n mod 256 ^ Suc k"
    by (simp add: mod_mult2_eq)
  finally show ?case .
qed

lemma length_abi_word: "length (abi_word n) = 32"
  by (simp add: abi_word_def length_be_bytes)

lemma be_val_abi_word: "n < 2 ^ 256 \<Longrightarrow> be_val (abi_word n) = n"
  using be_val_be_bytes [of 32 n] by (simp add: abi_word_def del: be_val.simps)

lemma take_drop_words:
  "i < length xs \<Longrightarrow>
   take 32 (drop (32 * i) (concat (map (\<lambda>x. abi_word (f x)) xs))) = abi_word (f (xs ! i))"
proof (induction xs arbitrary: i)
  case Nil
  then show ?case by simp
next
  case (Cons x xs)
  show ?case
  proof (cases i)
    case 0
    then show ?thesis by (simp add: length_abi_word)
  next
    case (Suc j)
    with Cons.prems have "j < length xs" by simp
    from Cons.IH [OF this] show ?thesis using Suc by (simp add: length_abi_word)
  qed
qed

lemma length_abi_encode: "length (abi_encode_uint32_array xs) = 64 + 32 * length xs"
  by (induction xs) (simp_all add: abi_encode_uint32_array_def length_abi_word)

lemma word_at_encode_0: "word_at (abi_encode_uint32_array xs) 0 = 32"
  by (simp add: word_at_def abi_encode_uint32_array_def length_abi_word be_val_abi_word
      del: be_val.simps)

lemma word_at_encode_32:
  "length xs < 2 ^ 256 \<Longrightarrow> word_at (abi_encode_uint32_array xs) 32 = length xs"
  by (simp add: word_at_def abi_encode_uint32_array_def length_abi_word be_val_abi_word
      del: be_val.simps)

lemma word_at_encode_elem:
  assumes "i < length xs"
  shows "word_at (abi_encode_uint32_array xs) (64 + 32 * i) = unat (xs ! i)"
proof -
  have "unat (xs ! i) < 2 ^ 256"
    using unsigned_less [of "xs ! i", where 'a = nat]
    by (simp add: order_less_trans [where y = "2 ^ 32"])
  then show ?thesis
    using assms
    by (simp add: word_at_def abi_encode_uint32_array_def length_abi_word be_val_abi_word
        take_drop_words del: be_val.simps)
qed

text \<open>Decoding an encoded array gives the array back.\<close>

lemma abi_decode_encode:
  assumes "length xs < 2 ^ 256"
  shows "abi_decode_uint32_array (abi_encode_uint32_array xs) = Some xs"
proof -
  let ?bs = "abi_encode_uint32_array xs"
  have ws: "map (\<lambda>i. word_at ?bs (64 + 32 * i)) [0..<length xs] = map unat xs"
    by (rule nth_equalityI) (simp_all add: word_at_encode_elem)
  have small: "list_all (\<lambda>w. w < 2 ^ 32) (map unat xs)"
    using unsigned_less [where 'b = 32 and 'a = nat] by (simp add: list_all_iff)
  have undo: "map of_nat (map unat xs) = xs"
    by (induction xs) simp_all
  show ?thesis
    using assms small undo
    by (simp add: abi_decode_uint32_array_def length_abi_encode word_at_encode_0
        word_at_encode_32 ws Let_def del: be_val.simps map_map)
qed

lemma plain_simps:
  "asEuint32 plain = ucast"
  "fhe_add plain a b = ucast ((ucast a :: uint32) + ucast b)"
  "checkSignatures plain r c p \<longleftrightarrow> p = [1]"
  "abi_decode plain (abi_encode_uint32_array [x1, x2, x3, x4]) = Some [x1, x2, x3, x4]"
  "abi_decode plain (abi_encode_uint32_array [x1, x2]) = Some [x1, x2]"
  "abi_decode plain [] = None"
  by (simp_all add: plain_def abi_decode_encode) (simp add: abi_decode_uint32_array_def)

lemma ucast_ucast_uint32: "(ucast (ucast (a :: uint32) :: euint32) :: uint32) = a"
  by (rule bit_word_eqI) (auto simp add: bit_ucast_iff dest: bit_imp_le_length)

lemma homomorphic_plain: "homomorphic plain plain_dec"
  by (simp add: homomorphic_def plain_def plain_dec_def ucast_ucast_uint32)

lemmas payload_defs = accepted_def payload_70_def payload_90_def payload_area0_def
  payload_stats_def payload_analysis_def

lemmas contract_defs = submitInspectionReport_def requestRiskAnalysis_def
  calculateRiskScore_def requestAnalysisDecryption_def decryptAnalysis_def
  requestAreaStats_def decryptAreaStats_def updateAreaStatistics_def
  checked_inc_def checked_sub_def checked_add_def riskScore_def priorityLevel_def
  transact_def init_def plain_simps payload_defs

section \<open>What each function does when it succeeds\<close>

lemmas callback_defs = calculateRiskScore_def decryptAnalysis_def decryptAreaStats_def

lemma submitInspectionReport_Inr:
  assumes "submitInspectionReport now r h f fa l s = Inr s'"
  shows "reportCount s \<noteq> - 1"
    and "s' = s\<lparr> reportCount := reportCount s + 1,
          inspectionReports := (inspectionReports s)(reportCount s + 1 :=
            \<lparr> encryptedRestaurantId = r, encryptedHygieneScore = h,
              encryptedFoodSafetyScore = f, encryptedFacilityScore = fa,
              encryptedLocationCode = l, timestamp = now \<rparr>),
          emitted := emitted s @ [ReportSubmitted (reportCount s + 1) now] \<rparr>"
  using assms by (auto simp: submitInspectionReport_def checked_inc_def split: if_splits)

lemma calculateRiskScore_Inr:
  assumes "calculateRiskScore ext requestId cleartexts proof s = Inr s'"
  shows "\<exists>h f fa l rest risk.
           requestToReportId s requestId \<noteq> 0 \<and>
           checkSignatures ext requestId cleartexts proof \<and>
           abi_decode ext cleartexts = Some (h # f # fa # l # rest) \<and>
           riskScore h f fa = Some risk \<and>
           analysisCount s \<noteq> - 1 \<and>
           s' = s\<lparr> analysisCount := analysisCount s + 1,
                  riskAnalyses := (riskAnalyses s)(analysisCount s + 1 :=
                    \<lparr> encryptedRiskScore = asEuint32 ext risk,
                      encryptedPriorityLevel = asEuint32 ext (priorityLevel risk),
                      isRevealed = False \<rparr>),
                  areaStatistics := updateAreaStatistics ext l h risk (areaStatistics s),
                  emitted := emitted s @ [RiskIdentified (analysisCount s + 1)] \<rparr>"
  using assms
  by (auto simp: calculateRiskScore_def checked_inc_def Let_def
      split: if_splits option.splits list.splits)

lemma decryptAnalysis_Inr:
  assumes "decryptAnalysis ext requestId cleartexts proof s = Inr s'"
  shows "requestToAnalysisId s requestId \<noteq> 0"
    and "checkSignatures ext requestId cleartexts proof"
    and "abi_decode ext cleartexts \<noteq> None"
    and "s' = s\<lparr> riskAnalyses := (riskAnalyses s)(requestToAnalysisId s requestId :=
                  (riskAnalyses s (requestToAnalysisId s requestId))\<lparr> isRevealed := True \<rparr>),
               emitted := emitted s @ [AnalysisRevealed (requestToAnalysisId s requestId)] \<rparr>"
  using assms
  by (auto simp: decryptAnalysis_def Let_def split: if_splits option.splits)

lemma decryptAreaStats_Inr:
  assumes "decryptAreaStats ext requestId cleartexts proof s = Inr s'"
  shows "(ucast (requestToAnalysisId s requestId) :: uint32) \<noteq> 0"
    and "checkSignatures ext requestId cleartexts proof"
    and "abi_decode ext cleartexts \<noteq> None"
    and "s' = s"
  using assms
  by (auto simp: decryptAreaStats_def Let_def split: if_splits option.splits)

lemma requestRiskAnalysis_Inr:
  assumes "requestRiskAnalysis reqId reportId s = Inr s'"
  shows "reportId \<le> reportCount s"
    and "s' = s\<lparr> requestToReportId := (requestToReportId s)(reqId := reportId),
              emitted := emitted s @ [AnalysisRequested reportId],
              decryptionRequests := decryptionRequests s @
                [(reqId, [encryptedHygieneScore (inspectionReports s reportId),
               encryptedFoodSafetyScore (inspectionReports s reportId),
               encryptedFacilityScore (inspectionReports s reportId),
               encryptedLocationCode (inspectionReports s reportId)], calculateRiskScore_selector)] \<rparr>"
  using assms by (auto simp: requestRiskAnalysis_def Let_def split: if_splits)

lemma requestAnalysisDecryption_Inr:
  assumes "requestAnalysisDecryption reqId analysisId s = Inr s'"
  shows "analysisId \<le> analysisCount s"
    and "\<not> isRevealed (riskAnalyses s analysisId)"
    and "s' = s\<lparr> requestToAnalysisId := (requestToAnalysisId s)(reqId := analysisId),
              decryptionRequests := decryptionRequests s @
                [(reqId, [encryptedRiskScore (riskAnalyses s analysisId),
               encryptedPriorityLevel (riskAnalyses s analysisId)], decryptAnalysis_selector)] \<rparr>"
  using assms by (auto simp: requestAnalysisDecryption_def Let_def split: if_splits)

lemma requestAreaStats_Inr:
  assumes "requestAreaStats ext reqId locationCode s = Inr s'"
  shows "encryptedAvgHygiene (areaStatistics s locationCode) \<noteq> asEuint32 ext 0"
    and "s' = s\<lparr> requestToAnalysisId := (requestToAnalysisId s)(reqId := ucast locationCode),
              decryptionRequests := decryptionRequests s @
                [(reqId, [encryptedAvgHygiene (areaStatistics s locationCode),
               encryptedRiskCount (areaStatistics s locationCode)], decryptAreaStats_selector)] \<rparr>"
  using assms by (auto simp: requestAreaStats_def Let_def split: if_splits)

text \<open>The errors a transaction can fail with.\<close>

lemma exec_errors:
  assumes "exec ext c s = Inl e"
  shows "e = Require ''Invalid report ID'' \<or> e = Require ''Invalid analysis ID'' \<or>
     e = Require ''No data for area'' \<or> e = Require ''Already revealed'' \<or>
     e = Require ''Invalid request'' \<or> e = InvalidProof \<or> e = MalformedPayload \<or>
     e = Panic 0x11 \<or> e = Panic 0x32"
proof (cases c)
  case (SubmitInspectionReport now r h f fa l)
  with assms show ?thesis
    by (auto simp: submitInspectionReport_def checked_inc_def split: if_splits)
next
  case (RequestRiskAnalysis reqId reportId)
  with assms show ?thesis
    by (auto simp: requestRiskAnalysis_def Let_def split: if_splits)
next
  case (CalculateRiskScore requestId cleartexts proof')
  with assms show ?thesis
    by (auto simp: calculateRiskScore_def checked_inc_def Let_def
        split: if_splits option.splits list.splits)
next
  case (RequestAnalysisDecryption reqId analysisId)
  with assms show ?thesis
    by (auto simp: requestAnalysisDecryption_def Let_def split: if_splits)
next
  case (DecryptAnalysis requestId cleartexts proof')
  with assms show ?thesis
    by (auto simp: decryptAnalysis_def Let_def split: if_splits option.splits)
next
  case (RequestAreaStats reqId locationCode)
  with assms show ?thesis
    by (auto simp: requestAreaStats_def Let_def split: if_splits)
next
  case (DecryptAreaStats requestId cleartexts proof')
  with assms show ?thesis
    by (auto simp: decryptAreaStats_def Let_def split: if_splits option.splits)
qed

section \<open>Invariants of sequences of transactions\<close>

text \<open>
  An analysis that exists and is revealed stays so: the only write of \<open>False\<close> to a flag
  is at the fresh id \<open>analysisCount + 1\<close>, which the checked increment keeps above every
  existing id.
\<close>

lemma revealed_kept_step:
  assumes "i \<le> analysisCount s" and "isRevealed (riskAnalyses s i)"
  shows "i \<le> analysisCount (transact ext c s) \<and> isRevealed (riskAnalyses (transact ext c s) i)"
proof (cases "exec ext c s")
  case (Inl e)
  then show ?thesis using assms by (simp add: transact_def)
next
  case (Inr s')
  then have t: "transact ext c s = s'" by (simp add: transact_def)
  show ?thesis
  proof (cases c)
    case (CalculateRiskScore requestId cleartexts proof')
    with Inr have "calculateRiskScore ext requestId cleartexts proof' s = Inr s'" by simp
    from calculateRiskScore_Inr [OF this] obtain h f fa l rest risk where
      room: "analysisCount s \<noteq> - 1"
      and s': "s' = s\<lparr> analysisCount := analysisCount s + 1,
                  riskAnalyses := (riskAnalyses s)(analysisCount s + 1 :=
                    \<lparr> encryptedRiskScore = asEuint32 ext risk,
                      encryptedPriorityLevel = asEuint32 ext (priorityLevel risk),
                      isRevealed = False \<rparr>),
                  areaStatistics := updateAreaStatistics ext l h risk (areaStatistics s),
                  emitted := emitted s @ [RiskIdentified (analysisCount s + 1)] \<rparr>"
      by blast
    have "i \<noteq> analysisCount s + 1" using room assms(1) by (rule le_not_inc)
    moreover have "i \<le> analysisCount s + 1"
      using inc_greater [OF room] assms(1) by simp
    ultimately show ?thesis using assms(2) by (simp add: t s')
  next
    case (DecryptAnalysis requestId cleartexts proof')
    with Inr have "decryptAnalysis ext requestId cleartexts proof' s = Inr s'" by simp
    from decryptAnalysis_Inr(4) [OF this] show ?thesis using assms by (simp add: t)
  qed (use Inr assms t in \<open>auto dest: submitInspectionReport_Inr(2) requestRiskAnalysis_Inr(2)
        requestAnalysisDecryption_Inr(3) requestAreaStats_Inr(2) decryptAreaStats_Inr(4)\<close>)
qed

lemma revealed_kept_run:
  "i \<le> analysisCount s \<Longrightarrow> isRevealed (riskAnalyses s i) \<Longrightarrow>
   i \<le> analysisCount (run ext cs s) \<and> isRevealed (riskAnalyses (run ext cs s) i)"
proof (induction cs arbitrary: s)
  case Nil
  then show ?case by simp
next
  case (Cons c cs)
  from revealed_kept_step [OF Cons.prems, of ext c]
  show ?case using Cons.IH [of "transact ext c s"] by simp
qed

lemma reveal_only_by_decryptAnalysis:
  assumes "\<not> isRevealed (riskAnalyses s i)"
    and "isRevealed (riskAnalyses (transact ext c s) i)"
  shows "\<exists>requestId cleartexts proof.
           c = DecryptAnalysis requestId cleartexts proof \<and>
           requestToAnalysisId s requestId = i \<and> i \<noteq> 0 \<and>
           checkSignatures ext requestId cleartexts proof \<and>
           abi_decode ext cleartexts \<noteq> None"
proof (cases "exec ext c s")
  case (Inl e)
  then show ?thesis using assms by (simp add: transact_def)
next
  case (Inr s')
  then have t: "transact ext c s = s'" by (simp add: transact_def)
  with assms(2) have now: "isRevealed (riskAnalyses s' i)" by simp
  show ?thesis
  proof (cases c)
    case (CalculateRiskScore requestId cleartexts proof')
    with Inr have "calculateRiskScore ext requestId cleartexts proof' s = Inr s'" by simp
    from calculateRiskScore_Inr [OF this] show ?thesis
      using assms(1) now by (auto split: if_splits)
  next
    case (DecryptAnalysis requestId cleartexts proof')
    with Inr have a: "decryptAnalysis ext requestId cleartexts proof' s = Inr s'" by simp
    note r = decryptAnalysis_Inr [OF a]
    have "requestToAnalysisId s requestId = i"
      using assms(1) now by (auto simp: r(4) split: if_splits)
    then show ?thesis using r(1-3) DecryptAnalysis by auto
  qed (use Inr assms(1) now in \<open>auto dest: submitInspectionReport_Inr(2) requestRiskAnalysis_Inr(2)
        requestAnalysisDecryption_Inr(3) requestAreaStats_Inr(2) decryptAreaStats_Inr(4)\<close>)
qed


text \<open>A mapping entry changes only in a dispatch that the oracle gives its key.\<close>

lemma pending_kept_step:
  assumes "dispatched c \<noteq> Some reqId"
  shows "requestToReportId (transact ext c s) reqId = requestToReportId s reqId \<and>
         requestToAnalysisId (transact ext c s) reqId = requestToAnalysisId s reqId"
proof (cases "exec ext c s")
  case (Inl e)
  then show ?thesis by (simp add: transact_def)
next
  case (Inr s')
  then have t: "transact ext c s = s'" by (simp add: transact_def)
  from Inr assms show ?thesis unfolding t
    by (cases c)
      (auto dest: submitInspectionReport_Inr(2) calculateRiskScore_Inr requestRiskAnalysis_Inr(2)
        requestAnalysisDecryption_Inr(3) decryptAnalysis_Inr(4) requestAreaStats_Inr(2)
        decryptAreaStats_Inr(4))
qed

lemma pending_kept_run:
  "list_all (\<lambda>c. dispatched c \<noteq> Some reqId) cs \<Longrightarrow>
   requestToReportId (run ext cs s) reqId = requestToReportId s reqId \<and>
   requestToAnalysisId (run ext cs s) reqId = requestToAnalysisId s reqId"
proof (induction cs arbitrary: s)
  case Nil
  then show ?case by simp
next
  case (Cons c cs)
  then have "dispatched c \<noteq> Some reqId" and "list_all (\<lambda>c. dispatched c \<noteq> Some reqId) cs"
    by simp_all
  from pending_kept_step [OF this(1), of ext s] Cons.IH [OF this(2), of "transact ext c s"]
  show ?case by simp
qed

section \<open>The area statistics under a correct FHE library\<close>

lemma updateAreaStatistics_sum:
  assumes "homomorphic ext dec"
  shows "dec (encryptedAvgHygiene (updateAreaStatistics ext l h risk areas l)) =
         dec (encryptedAvgHygiene (areas l)) + h"
  using assms by (auto simp: updateAreaStatistics_def homomorphic_def Let_def)

lemma updateAreaStatistics_count:
  assumes "homomorphic ext dec"
    and "encryptedAvgHygiene (areas l) \<noteq> asEuint32 ext 0 \<or> dec (encryptedRiskCount (areas l)) = 0"
  shows "dec (encryptedRiskCount (updateAreaStatistics ext l h risk areas l)) =
         dec (encryptedRiskCount (areas l)) + (if risk > 100 then 1 else 0)"
  using assms by (auto simp: updateAreaStatistics_def homomorphic_def Let_def)

section \<open>The scenario, evaluated\<close>



lemma requested_eval:
  "reportCount requested = 3"
  "analysisCount requested = 0"
  "requestToReportId requested 7 = 1"
  "requestToReportId requested 8 = 2"
  "requestToReportId requested 12 = 3"
  "requestToReportId requested 99 = 0"
  "requestToAnalysisId requested 99 = 0"
  "areaStatistics requested 1 = \<lparr> encryptedAvgHygiene = 0, encryptedRiskCount = 0 \<rparr>"
  by (simp_all add: requested_def contract_defs)

lemma resolved1_eval:
  "analysisCount resolved1 = 1"
  "requestToReportId resolved1 7 = 1"
  "requestToReportId resolved1 8 = 2"
  "areaStatistics resolved1 1 = \<lparr> encryptedAvgHygiene = 70, encryptedRiskCount = 1 \<rparr>"
  "riskAnalyses resolved1 1 =
     \<lparr> encryptedRiskScore = 210, encryptedPriorityLevel = 3, isRevealed = False \<rparr>"
  by (simp_all add: resolved1_def requested_def contract_defs)

lemma resolved2_eval:
  "analysisCount resolved2 = 2"
  "areaStatistics resolved2 1 = \<lparr> encryptedAvgHygiene = 160, encryptedRiskCount = 1 \<rparr>"
  "riskAnalyses resolved2 2 =
     \<lparr> encryptedRiskScore = 45, encryptedPriorityLevel = 1, isRevealed = False \<rparr>"
  by (simp_all add: resolved2_def resolved1_def requested_def contract_defs)

lemma resolved1_step:
  "calculateRiskScore plain 7 payload_70 accepted requested = Inr resolved1"
  by (simp add: resolved1_def requested_eval contract_defs)

lemma resolved2_step:
  "calculateRiskScore plain 8 payload_90 accepted resolved1 = Inr resolved2"
  by (simp add: resolved2_def resolved1_eval contract_defs)

lemma replayed_step:
  "calculateRiskScore plain 7 payload_70 accepted resolved1 = Inr replayed"
  by (simp add: replayed_def resolved1_eval contract_defs)

lemma replayed_eval:
  "analysisCount replayed = 2"
  "areaStatistics replayed 1 = \<lparr> encryptedAvgHygiene = 140, encryptedRiskCount = 2 \<rparr>"
  by (simp_all add: replayed_def resolved1_def requested_def contract_defs)

lemma stats_requested_step:
  "requestAreaStats plain 9 1 resolved1 = Inr stats_requested"
  by (simp add: stats_requested_def resolved1_eval contract_defs)

lemma stats_requested_eval:
  "analysisCount stats_requested = 1"
  "requestToAnalysisId stats_requested 9 = 1"
  "\<not> isRevealed (riskAnalyses stats_requested 1)"
  "decryptionRequests stats_requested ! 3 = (9, [70, 1], decryptAreaStats_selector)"
  by (simp_all add: stats_requested_def resolved1_def requested_def contract_defs)

lemma stats_resolved_step:
  "decryptAreaStats plain 9 payload_stats accepted stats_requested = Inr stats_requested"
  by (simp add: stats_requested_eval contract_defs)

lemma crossed_step:
  "decryptAnalysis plain 9 payload_stats accepted stats_requested = Inr crossed"
  by (simp add: crossed_def stats_requested_eval contract_defs)

lemma crossed_eval:
  "isRevealed (riskAnalyses crossed 1)"
  by (simp add: crossed_def stats_requested_eval contract_defs)

lemma reveal_requested_eval:
  "analysisCount reveal_requested = 1"
  "requestToAnalysisId reveal_requested 10 = 1"
  "requestToAnalysisId reveal_requested 11 = 1"
  "\<not> isRevealed (riskAnalyses reveal_requested 1)"
  by (simp_all add: reveal_requested_def resolved1_eval contract_defs)

lemma reveal_requested_steps:
  "requestAnalysisDecryption 10 1 resolved1 =
     Inr (transact plain (RequestAnalysisDecryption 10 1) resolved1)"
  "requestAnalysisDecryption 11 1 (transact plain (RequestAnalysisDecryption 10 1) resolved1) =
     Inr reveal_requested"
  by (simp_all add: reveal_requested_def resolved1_eval contract_defs)

lemma revealed_step:
  "decryptAnalysis plain 10 payload_analysis accepted reveal_requested = Inr revealed"
  by (simp add: revealed_def reveal_requested_eval contract_defs)

lemma revealed_eval:
  "analysisCount revealed = 1"
  "requestToAnalysisId revealed 11 = 1"
  "isRevealed (riskAnalyses revealed 1)"
  by (simp_all add: revealed_def reveal_requested_eval contract_defs)

lemma revealed_again_step:
  "decryptAnalysis plain 11 payload_analysis accepted revealed = Inr revealed_again"
  by (simp add: revealed_again_def revealed_eval contract_defs)

lemma revealed_again_eval:
  "isRevealed (riskAnalyses revealed_again 1)"
  "emitted revealed_again = emitted revealed @ [AnalysisRevealed 1]"
  by (simp_all add: revealed_again_def revealed_eval contract_defs)

lemma area0_resolved_step:
  "calculateRiskScore plain 12 payload_area0 accepted requested = Inr area0_resolved"
  by (simp add: area0_resolved_def requested_eval contract_defs)

lemma area0_requested_step:
  "requestAreaStats plain 13 0 area0_resolved = Inr area0_requested"
  by (simp add: area0_requested_def area0_resolved_def requested_def contract_defs)

lemma failures_eval:
  "exec plain (RequestRiskAnalysis 14 4) requested = Inl (Require ''Invalid report ID'')"
  "exec plain (CalculateRiskScore 99 payload_70 accepted) requested =
     Inl (Require ''Invalid request'')"
  "exec plain (CalculateRiskScore 7 payload_70 []) requested = Inl InvalidProof"
  "exec plain (CalculateRiskScore 7 [] accepted) requested = Inl MalformedPayload"
  "exec plain (RequestAnalysisDecryption 14 1) revealed = Inl (Require ''Already revealed'')"
  by (simp_all add: requested_eval revealed_eval contract_defs)

lemma risk_eval:
  "riskScore 70 10 10 = Some 210"
  "riskScore 90 85 80 = Some 45"
  by (simp_all add: riskScore_def checked_sub_def checked_add_def)

lemma resolved2_dec:
  "plain_dec (encryptedAvgHygiene (areaStatistics resolved2 1)) = 160"
  "plain_dec (encryptedRiskCount (areaStatistics resolved2 1)) = 1"
  by (simp_all add: resolved2_eval plain_dec_def)

section \<open>The claims\<close>

text \<open>
  C1, the claim as stated, fails. Request 7 is resolved by \<open>calculateRiskScore\<close>, its
  entry is still in \<open>requestToReportId\<close> afterwards, and resolving it a second time
  with the same payload and proof succeeds and creates a second analysis.
\<close>

theorem replay_succeeds:
  "calculateRiskScore plain 7 payload_70 accepted requested = Inr resolved1 \<and>
   requestToReportId resolved1 7 = 1 \<and>
   calculateRiskScore plain 7 payload_70 accepted resolved1 = Inr replayed \<and>
   analysisCount resolved1 = 1 \<and> analysisCount replayed = 2"
  by (simp add: resolved1_step replayed_step resolved1_eval replayed_eval)

text \<open>
  C1 as amended. For every callback (\<open>calculateRiskScore\<close>, \<open>decryptAnalysis\<close>,
  \<open>decryptAreaStats\<close>), resolving a request id whose entry in the callback's mapping is
  zero (never recorded) fails with \<^verbatim>\<open>Invalid request\<close>, whatever the payload and the
  proof. A successful resolution does not remove the entry: no callback changes either
  mapping, so the same request id passes the lookup again; \<open>decryptAnalysis\<close> and
  \<open>decryptAreaStats\<close> succeed a second time, and \<open>calculateRiskScore\<close> succeeds a
  second time unless \<open>analysisCount\<close> is at its maximum.
\<close>

theorem callback_lookup:
  "(requestToReportId s requestId = 0 \<longrightarrow>
      calculateRiskScore ext requestId cleartexts proof s = Inl (Require ''Invalid request'')) \<and>
   (requestToAnalysisId s requestId = 0 \<longrightarrow>
      decryptAnalysis ext requestId cleartexts proof s = Inl (Require ''Invalid request'') \<and>
      decryptAreaStats ext requestId cleartexts proof s = Inl (Require ''Invalid request'')) \<and>
   (calculateRiskScore ext requestId cleartexts proof s = Inr s1 \<longrightarrow>
      requestToReportId s1 = requestToReportId s \<and>
      requestToAnalysisId s1 = requestToAnalysisId s \<and>
      requestToReportId s1 requestId \<noteq> 0 \<and>
      ((\<exists>s'. calculateRiskScore ext requestId cleartexts proof s1 = Inr s') \<or>
       calculateRiskScore ext requestId cleartexts proof s1 = Inl (Panic 0x11))) \<and>
   (decryptAnalysis ext requestId cleartexts proof s = Inr s2 \<longrightarrow>
      requestToReportId s2 = requestToReportId s \<and>
      requestToAnalysisId s2 = requestToAnalysisId s \<and>
      requestToAnalysisId s2 requestId \<noteq> 0 \<and>
      (\<exists>s'. decryptAnalysis ext requestId cleartexts proof s2 = Inr s')) \<and>
   (decryptAreaStats ext requestId cleartexts proof s = Inr s3 \<longrightarrow>
      requestToReportId s3 = requestToReportId s \<and>
      requestToAnalysisId s3 = requestToAnalysisId s \<and>
      requestToAnalysisId s3 requestId \<noteq> 0 \<and>
      decryptAreaStats ext requestId cleartexts proof s3 = Inr s3)"
proof (intro conjI impI)
  assume "calculateRiskScore ext requestId cleartexts proof s = Inr s1"
  from calculateRiskScore_Inr [OF this] obtain h f fa l rest risk where
    ok: "requestToReportId s requestId \<noteq> 0" "checkSignatures ext requestId cleartexts proof"
      "abi_decode ext cleartexts = Some (h # f # fa # l # rest)" "riskScore h f fa = Some risk"
    and s1: "s1 = s\<lparr> analysisCount := analysisCount s + 1,
                  riskAnalyses := (riskAnalyses s)(analysisCount s + 1 :=
                    \<lparr> encryptedRiskScore = asEuint32 ext risk,
                      encryptedPriorityLevel = asEuint32 ext (priorityLevel risk),
                      isRevealed = False \<rparr>),
                  areaStatistics := updateAreaStatistics ext l h risk (areaStatistics s),
                  emitted := emitted s @ [RiskIdentified (analysisCount s + 1)] \<rparr>"
    by blast
  show "requestToReportId s1 = requestToReportId s" by (simp add: s1)
  show "requestToAnalysisId s1 = requestToAnalysisId s" by (simp add: s1)
  show "requestToReportId s1 requestId \<noteq> 0" using ok by (simp add: s1)
  show "(\<exists>s'. calculateRiskScore ext requestId cleartexts proof s1 = Inr s') \<or>
       calculateRiskScore ext requestId cleartexts proof s1 = Inl (Panic 0x11)"
    using ok by (simp add: s1 calculateRiskScore_def checked_inc_def)
next
  assume a: "decryptAnalysis ext requestId cleartexts proof s = Inr s2"
  note r = decryptAnalysis_Inr [OF a]
  show "requestToReportId s2 = requestToReportId s" by (simp add: r(4))
  show "requestToAnalysisId s2 = requestToAnalysisId s" by (simp add: r(4))
  show "requestToAnalysisId s2 requestId \<noteq> 0" using r(1) by (simp add: r(4))
  show "\<exists>s'. decryptAnalysis ext requestId cleartexts proof s2 = Inr s'"
    using r(1-3) by (subst r(4)) (auto simp add: decryptAnalysis_def Let_def)
next
  assume a: "decryptAreaStats ext requestId cleartexts proof s = Inr s3"
  note r = decryptAreaStats_Inr [OF a]
  show "requestToReportId s3 = requestToReportId s" by (simp add: r(4))
  show "requestToAnalysisId s3 = requestToAnalysisId s" by (simp add: r(4))
  show "requestToAnalysisId s3 requestId \<noteq> 0" using r(1) by (auto simp add: r(4))
  show "decryptAreaStats ext requestId cleartexts proof s3 = Inr s3"
    using a by (simp add: r(4))
qed (simp_all add: callback_defs)

theorem callback_lookup_witness:
  "requestToReportId requested 99 = 0 \<and>
   calculateRiskScore plain 99 payload_70 accepted requested = Inl (Require ''Invalid request'') \<and>
   requestToAnalysisId requested 99 = 0 \<and>
   decryptAnalysis plain 99 payload_70 accepted requested = Inl (Require ''Invalid request'') \<and>
   decryptAreaStats plain 99 payload_70 accepted requested = Inl (Require ''Invalid request'') \<and>
   calculateRiskScore plain 7 payload_70 accepted requested = Inr resolved1 \<and>
   requestToReportId resolved1 = requestToReportId requested \<and>
   requestToReportId resolved1 7 \<noteq> 0 \<and>
   decryptAnalysis plain 10 payload_analysis accepted reveal_requested = Inr revealed \<and>
   requestToAnalysisId revealed = requestToAnalysisId reveal_requested \<and>
   requestToAnalysisId revealed 10 \<noteq> 0 \<and>
   (\<exists>s'. decryptAnalysis plain 10 payload_analysis accepted revealed = Inr s') \<and>
   decryptAreaStats plain 9 payload_stats accepted stats_requested = Inr stats_requested \<and>
   requestToAnalysisId stats_requested 9 \<noteq> 0"
proof -
  note absent = callback_lookup [where s = requested and requestId = 99 and ext = plain
      and cleartexts = payload_70 and ?proof = accepted]
  note risk = callback_lookup [where s = requested and requestId = 7 and ext = plain
      and cleartexts = payload_70 and ?proof = accepted and ?s1.0 = resolved1]
  note reveal = callback_lookup [where s = reveal_requested and requestId = 10 and ext = plain
      and cleartexts = payload_analysis and ?proof = accepted and ?s2.0 = revealed]
  note stats = callback_lookup [where s = stats_requested and requestId = 9 and ext = plain
      and cleartexts = payload_stats and ?proof = accepted and ?s3.0 = stats_requested]
  have z1: "requestToReportId requested 99 = 0" and z2: "requestToAnalysisId requested 99 = 0"
    by (simp_all add: requested_eval)
  note a1 = absent [THEN conjunct1, THEN mp, OF z1]
  note a2 = absent [THEN conjunct2, THEN conjunct1, THEN mp, OF z2]
  note b = risk [THEN conjunct2, THEN conjunct2, THEN conjunct1, THEN mp, OF resolved1_step]
  note c = reveal [THEN conjunct2, THEN conjunct2, THEN conjunct2, THEN conjunct1, THEN mp,
      OF revealed_step]
  note d = stats [THEN conjunct2, THEN conjunct2, THEN conjunct2, THEN conjunct2, THEN mp,
      OF stats_resolved_step]
  from z1 z2 a1 a2 b c d resolved1_step revealed_step stats_resolved_step
  show ?thesis by blast
qed

text \<open>
  C2, the claim as stated, fails. The contract keeps no purpose with a request:
  \<open>requestAreaStats\<close> records its location code in \<open>requestToAnalysisId\<close>, the mapping
  that \<open>decryptAnalysis\<close> reads. Request 9 is dispatched by \<open>requestAreaStats\<close> for
  location 1, with the callback \<open>decryptAreaStats\<close>; \<open>decryptAnalysis\<close> called with
  request 9 succeeds and sets the flag of analysis 1.
\<close>

theorem area_stats_request_reveals_analysis:
  "requestAreaStats plain 9 1 resolved1 = Inr stats_requested \<and>
   decryptionRequests stats_requested ! 3 = (9, [70, 1], decryptAreaStats_selector) \<and>
   analysisCount stats_requested = 1 \<and>
   \<not> isRevealed (riskAnalyses stats_requested 1) \<and>
   decryptAnalysis plain 9 payload_stats accepted stats_requested = Inr crossed \<and>
   isRevealed (riskAnalyses crossed 1)"
  by (simp add: stats_requested_step stats_requested_eval crossed_step crossed_eval)

text \<open>
  C2 as amended. An analysis that exists (its id is at most \<open>analysisCount\<close>) and is
  revealed stays revealed through every sequence of transactions, so its flag goes from
  false to true at most once. A flag goes from false to true only in a successful
  \<open>decryptAnalysis\<close> (accepted proof, decodable payload) whose request id has the
  analysis's id, not zero, as its entry in \<open>requestToAnalysisId\<close>; the entry may have
  been recorded by \<open>requestAnalysisDecryption\<close> or by \<open>requestAreaStats\<close>.
\<close>

theorem reveal_once_by_matching_entry:
  "(i \<le> analysisCount s \<and> isRevealed (riskAnalyses s i) \<longrightarrow>
      i \<le> analysisCount (run ext cs s) \<and> isRevealed (riskAnalyses (run ext cs s) i)) \<and>
   (\<not> isRevealed (riskAnalyses s i) \<and> isRevealed (riskAnalyses (transact ext c s) i) \<longrightarrow>
      (\<exists>requestId cleartexts proof.
         c = DecryptAnalysis requestId cleartexts proof \<and>
         requestToAnalysisId s requestId = i \<and> i \<noteq> 0 \<and>
         checkSignatures ext requestId cleartexts proof \<and>
         abi_decode ext cleartexts \<noteq> None))"
  using revealed_kept_run [of i s ext cs] reveal_only_by_decryptAnalysis [of s i ext c]
  by blast

theorem reveal_once_by_matching_entry_witness:
  "1 \<le> analysisCount revealed \<and> isRevealed (riskAnalyses revealed 1) \<and>
   isRevealed (riskAnalyses
     (run plain [CalculateRiskScore 8 payload_90 accepted,
                 DecryptAnalysis 11 payload_analysis accepted,
                 RequestAnalysisDecryption 14 2] revealed) 1) \<and>
   \<not> isRevealed (riskAnalyses reveal_requested 1) \<and>
   isRevealed (riskAnalyses
     (transact plain (DecryptAnalysis 10 payload_analysis accepted) reveal_requested) 1) \<and>
   requestToAnalysisId reveal_requested 10 = 1 \<and>
   checkSignatures plain 10 payload_analysis accepted \<and>
   abi_decode plain payload_analysis \<noteq> None"
proof -
  have kept_pre: "1 \<le> analysisCount revealed \<and> isRevealed (riskAnalyses revealed 1)"
    by (simp add: revealed_eval)
  have flip_pre: "\<not> isRevealed (riskAnalyses reveal_requested 1) \<and>
      isRevealed (riskAnalyses
        (transact plain (DecryptAnalysis 10 payload_analysis accepted) reveal_requested) 1)"
    using revealed_eval(3) by (simp add: reveal_requested_eval revealed_def)
  note kept = reveal_once_by_matching_entry [where i = 1 and s = revealed and ext = plain
      and cs = "[CalculateRiskScore 8 payload_90 accepted,
                 DecryptAnalysis 11 payload_analysis accepted,
                 RequestAnalysisDecryption 14 2]", THEN conjunct1, THEN mp, OF kept_pre]
  note flip = reveal_once_by_matching_entry [where i = 1 and s = reveal_requested
      and ext = plain and c = "DecryptAnalysis 10 payload_analysis accepted",
      THEN conjunct2, THEN mp, OF flip_pre]
  from flip have "requestToAnalysisId reveal_requested 10 = 1 \<and>
      checkSignatures plain 10 payload_analysis accepted \<and>
      abi_decode plain payload_analysis \<noteq> None"
    by auto
  with kept kept_pre flip_pre show ?thesis by blast
qed

text \<open>
  C3. The guard \<^verbatim>\<open>reportId <= reportCount\<close> of \<open>requestRiskAnalysis\<close> rejects every id
  above \<open>reportCount\<close> but not the id 0, which no report has. On the freshly deployed
  contract \<open>requestRiskAnalysis(1)\<close> fails with \<^verbatim>\<open>Invalid report ID\<close>, and
  \<open>requestRiskAnalysis(0)\<close> succeeds: it sends the four zero handles of the missing
  report to the oracle and emits \<open>AnalysisRequested(0)\<close>, where the claim says it fails
  with \<^verbatim>\<open>UnknownTarget\<close>.
\<close>

theorem requestRiskAnalysis_accepts_zero:
  "requestRiskAnalysis 7 1 init = Inl (Require ''Invalid report ID'') \<and>
   requestRiskAnalysis 7 0 init =
     Inr (init\<lparr> requestToReportId := (requestToReportId init)(7 := 0),
            emitted := [AnalysisRequested 0],
            decryptionRequests := [(7, [0, 0, 0, 0], calculateRiskScore_selector)] \<rparr>)"
  by (simp add: requestRiskAnalysis_def init_def)

text \<open>
  C4. For every hygiene, food-safety and facility score in [0,100] the resolver
  computes \<open>riskScore = 300 - hygiene - foodSafety - facility\<close>, with no underflow and
  no wrap-around (the value read as a natural number is the same difference), and the
  analysis that \<open>calculateRiskScore\<close> stores holds that score and the priority 1 when
  the score is at most 100, 2 when it is above 100 and at most 150, and 3 above 150.
\<close>

theorem risk_score_and_priority:
  assumes "hygiene \<le> 100" and "foodSafety \<le> 100" and "facility \<le> 100"
    and "requestToReportId s requestId \<noteq> 0"
    and "checkSignatures ext requestId cleartexts proof"
    and "abi_decode ext cleartexts =
           Some (hygiene # foodSafety # facility # locationCode # rest)"
    and "analysisCount s \<noteq> - 1"
  shows "riskScore hygiene foodSafety facility = Some (300 - hygiene - foodSafety - facility) \<and>
         unat (300 - hygiene - foodSafety - facility) =
           300 - unat hygiene - unat foodSafety - unat facility \<and>
         priorityLevel (300 - hygiene - foodSafety - facility) =
           (if 300 - hygiene - foodSafety - facility \<le> 100 then 1
            else if 300 - hygiene - foodSafety - facility \<le> 150 then 2 else 3) \<and>
         (\<exists>s'. calculateRiskScore ext requestId cleartexts proof s = Inr s' \<and>
            analysisCount s' = analysisCount s + 1 \<and>
            riskAnalyses s' (analysisCount s') =
              \<lparr> encryptedRiskScore = asEuint32 ext (300 - hygiene - foodSafety - facility),
                encryptedPriorityLevel = asEuint32 ext
                  (if 300 - hygiene - foodSafety - facility \<le> 100 then 1
                   else if 300 - hygiene - foodSafety - facility \<le> 150 then 2 else 3),
                isRevealed = False \<rparr>)"
proof -
  note rs = riskScore_in_range [OF assms(1-3)]
  have "\<exists>s'. calculateRiskScore ext requestId cleartexts proof s = Inr s' \<and>
            analysisCount s' = analysisCount s + 1 \<and>
            riskAnalyses s' (analysisCount s') =
              \<lparr> encryptedRiskScore = asEuint32 ext (300 - hygiene - foodSafety - facility),
                encryptedPriorityLevel = asEuint32 ext
                  (priorityLevel (300 - hygiene - foodSafety - facility)),
                isRevealed = False \<rparr>"
    using assms(4-7) rs by (simp add: calculateRiskScore_def checked_inc_def)
  then show ?thesis using rs by (simp add: priorityLevel_bands)
qed

theorem risk_score_and_priority_witness:
  "(90 :: uint32) \<le> 100 \<and> (85 :: uint32) \<le> 100 \<and> (80 :: uint32) \<le> 100 \<and>
   requestToReportId resolved1 8 \<noteq> 0 \<and>
   checkSignatures plain 8 payload_90 accepted \<and>
   abi_decode plain payload_90 = Some [90, 85, 80, 1] \<and>
   analysisCount resolved1 \<noteq> - 1 \<and>
   riskScore 90 85 80 = Some 45 \<and>
   priorityLevel 45 = 1 \<and>
   calculateRiskScore plain 8 payload_90 accepted resolved1 = Inr resolved2 \<and>
   riskAnalyses resolved2 2 =
     \<lparr> encryptedRiskScore = asEuint32 plain 45, encryptedPriorityLevel = asEuint32 plain 1,
       isRevealed = False \<rparr>"
proof -
  have h: "(90 :: uint32) \<le> 100" and f: "(85 :: uint32) \<le> 100" and fa: "(80 :: uint32) \<le> 100"
    by simp_all
  have pending: "requestToReportId resolved1 8 \<noteq> 0"
    by (simp add: resolved1_eval)
  have signed: "checkSignatures plain 8 payload_90 accepted"
    by (simp add: plain_simps payload_defs)
  have decoded: "abi_decode plain payload_90 = Some (90 # 85 # 80 # 1 # [])"
    by (simp add: plain_simps payload_defs)
  have room: "analysisCount resolved1 \<noteq> - 1"
    by (simp add: resolved1_eval)
  from risk_score_and_priority [OF h f fa pending signed decoded room]
  show ?thesis
    using pending signed decoded room
    by (simp add: resolved2_step resolved2_eval plain_simps)
qed

text \<open>
  C5. Let the FHE library be correct for a decryption \<open>dec\<close>. Starting from no aggregate
  for a location code (the zero entry of the mapping), after two successful
  \<open>calculateRiskScore\<close> resolutions for that code with hygiene values 70 and 90 (in
  either order) the hygiene sum of the aggregate decrypts to 160, and its risk count
  decrypts to the number of the two resolutions whose risk score exceeds 100.
\<close>

theorem area_aggregate_after_two:
  assumes hom: "homomorphic ext dec"
    and fresh: "areaStatistics s l = \<lparr> encryptedAvgHygiene = 0, encryptedRiskCount = 0 \<rparr>"
    and hs: "h1 = 70 \<and> h2 = 90 \<or> h1 = 90 \<and> h2 = 70"
    and d1: "abi_decode ext cleartexts1 = Some (h1 # f1 # fa1 # l # rest1)"
    and c1: "calculateRiskScore ext requestId1 cleartexts1 proof1 s = Inr s1"
    and d2: "abi_decode ext cleartexts2 = Some (h2 # f2 # fa2 # l # rest2)"
    and c2: "calculateRiskScore ext requestId2 cleartexts2 proof2 s1 = Inr s2"
  shows "\<exists>risk1 risk2.
           riskScore h1 f1 fa1 = Some risk1 \<and> riskScore h2 f2 fa2 = Some risk2 \<and>
           dec (encryptedAvgHygiene (areaStatistics s2 l)) = 160 \<and>
           dec (encryptedRiskCount (areaStatistics s2 l)) =
             (if risk1 > 100 then 1 else 0) + (if risk2 > 100 then 1 else 0)"
proof -
  from calculateRiskScore_Inr [OF c1] d1 obtain risk1 where
    r1: "riskScore h1 f1 fa1 = Some risk1"
    and a1: "areaStatistics s1 = updateAreaStatistics ext l h1 risk1 (areaStatistics s)"
    by auto
  from calculateRiskScore_Inr [OF c2] d2 obtain risk2 where
    r2: "riskScore h2 f2 fa2 = Some risk2"
    and a2: "areaStatistics s2 = updateAreaStatistics ext l h2 risk2 (areaStatistics s1)"
    by auto
  have zero: "dec 0 = 0" and enc0: "dec (asEuint32 ext 0) = 0"
    using hom by (simp_all add: homomorphic_def)
  have sum1: "dec (encryptedAvgHygiene (areaStatistics s1 l)) = h1"
    using updateAreaStatistics_sum [OF hom, of l h1 risk1 "areaStatistics s"]
    by (simp add: a1 fresh zero)
  have count1: "dec (encryptedRiskCount (areaStatistics s1 l)) = (if risk1 > 100 then 1 else 0)"
    using updateAreaStatistics_count [OF hom, of "areaStatistics s" l h1 risk1]
    by (simp add: a1 fresh zero)
  have "h1 \<noteq> 0" using hs by auto
  with sum1 enc0 have started: "encryptedAvgHygiene (areaStatistics s1 l) \<noteq> asEuint32 ext 0"
    by auto
  have sum2: "dec (encryptedAvgHygiene (areaStatistics s2 l)) = h1 + h2"
    using updateAreaStatistics_sum [OF hom, of l h2 risk2 "areaStatistics s1"]
    by (simp add: a2 sum1)
  have count2: "dec (encryptedRiskCount (areaStatistics s2 l)) =
      (if risk1 > 100 then 1 else 0) + (if risk2 > 100 then 1 else 0)"
    using updateAreaStatistics_count [OF hom, of "areaStatistics s1" l h2 risk2] started
    by (simp add: a2 count1)
  have "h1 + h2 = 160" using hs by auto
  with r1 r2 sum2 count2 show ?thesis by auto
qed

theorem area_aggregate_after_two_witness:
  "homomorphic plain plain_dec \<and>
   areaStatistics requested 1 = \<lparr> encryptedAvgHygiene = 0, encryptedRiskCount = 0 \<rparr> \<and>
   abi_decode plain payload_70 = Some [70, 10, 10, 1] \<and>
   calculateRiskScore plain 7 payload_70 accepted requested = Inr resolved1 \<and>
   abi_decode plain payload_90 = Some [90, 85, 80, 1] \<and>
   calculateRiskScore plain 8 payload_90 accepted resolved1 = Inr resolved2 \<and>
   riskScore 70 10 10 = Some 210 \<and> riskScore 90 85 80 = Some 45 \<and>
   plain_dec (encryptedAvgHygiene (areaStatistics resolved2 1)) = 160 \<and>
   plain_dec (encryptedRiskCount (areaStatistics resolved2 1)) = 1 + 0"
proof -
  have hs: "(70 :: uint32) = 70 \<and> (90 :: uint32) = 90 \<or> (70 :: uint32) = 90 \<and> (90 :: uint32) = 70"
    by simp
  have d1: "abi_decode plain payload_70 = Some (70 # 10 # 10 # 1 # [])"
    and d2: "abi_decode plain payload_90 = Some (90 # 85 # 80 # 1 # [])"
    by (simp_all add: plain_simps payload_defs)
  from area_aggregate_after_two [OF homomorphic_plain requested_eval(8) hs d1 resolved1_step
      d2 resolved2_step]
  obtain risk1 risk2 where
    r: "riskScore 70 10 10 = Some risk1" "riskScore 90 85 80 = Some risk2"
    and sum: "plain_dec (encryptedAvgHygiene (areaStatistics resolved2 1)) = 160"
    and count: "plain_dec (encryptedRiskCount (areaStatistics resolved2 1)) =
      (if risk1 > 100 then 1 else 0) + (if risk2 > 100 then 1 else 0)"
    by blast
  from r have "risk1 = 210" and "risk2 = 45"
    by (simp_all add: risk_eval)
  with count have "plain_dec (encryptedRiskCount (areaStatistics resolved2 1)) = 1 + 0"
    by simp
  with sum d1 d2 show ?thesis
    by (simp add: homomorphic_plain requested_eval(8) resolved1_step resolved2_step risk_eval)
qed

text \<open>
  C6, the claim as stated, fails. \<open>decryptAreaStats\<close> resolves request 9 and the
  state after the call is the state before it: the entry of request 9 in
  \<open>requestToAnalysisId\<close> is still 1.
\<close>

theorem decryptAreaStats_keeps_entry:
  "decryptAreaStats plain 9 payload_stats accepted stats_requested = Inr stats_requested \<and>
   requestToAnalysisId stats_requested 9 = 1"
  by (simp add: stats_resolved_step stats_requested_eval)

text \<open>
  C6 as amended. A successful \<open>decryptAreaStats\<close> leaves the whole state unchanged:
  the counters, the reports, the analyses, the area aggregates and both request
  mappings. The entry of the request id is not removed.
\<close>

theorem decryptAreaStats_changes_nothing:
  "decryptAreaStats ext requestId cleartexts proof s = Inr s' \<Longrightarrow>
     s' = s \<and> requestToAnalysisId s' requestId \<noteq> 0"
  using decryptAreaStats_Inr [of ext requestId cleartexts "proof" s s'] by auto

theorem decryptAreaStats_changes_nothing_witness:
  "decryptAreaStats plain 9 payload_stats accepted stats_requested = Inr stats_requested \<and>
   requestToAnalysisId stats_requested 9 \<noteq> 0"
  using decryptAreaStats_changes_nothing [OF stats_resolved_step] stats_resolved_step
  by blast



text \<open>
  C8. The dispatch path has the guard: \<open>requestAnalysisDecryption\<close> on the revealed
  analysis 1 fails with \<^verbatim>\<open>Already revealed\<close>. The callback path has none. Requests 10
  and 11 are both dispatched for analysis 1 while it is not revealed; \<open>decryptAnalysis\<close>
  resolves request 10 and reveals the analysis; \<open>decryptAnalysis\<close> for request 11 then
  succeeds on the revealed analysis and emits \<open>AnalysisRevealed(1)\<close> a second time,
  where the claim says it fails with \<^verbatim>\<open>AlreadyRevealed\<close>. The flag remains true.
\<close>

theorem reveal_twice:
  "requestAnalysisDecryption 10 1 resolved1 =
     Inr (transact plain (RequestAnalysisDecryption 10 1) resolved1) \<and>
   requestAnalysisDecryption 11 1 (transact plain (RequestAnalysisDecryption 10 1) resolved1) =
     Inr reveal_requested \<and>
   decryptAnalysis plain 10 payload_analysis accepted reveal_requested = Inr revealed \<and>
   isRevealed (riskAnalyses revealed 1) \<and>
   decryptAnalysis plain 11 payload_analysis accepted revealed = Inr revealed_again \<and>
   isRevealed (riskAnalyses revealed_again 1) \<and>
   emitted revealed_again = emitted revealed @ [AnalysisRevealed 1] \<and>
   requestAnalysisDecryption 14 1 revealed = Inl (Require ''Already revealed'')"
  using failures_eval(5)
  by (simp add: reveal_requested_steps revealed_step revealed_eval revealed_again_step
      revealed_again_eval)

text \<open>
  C9. A transaction that fails leaves the contract exactly as it was before the call:
  the counters, the entity tables and the request mappings (a revert discards every
  write of the call). The failures are the failed \<^verbatim>\<open>require\<close>s of the dispatches and
  of the callbacks, a rejected proof, a rejected payload, and the two panics.
\<close>

theorem failure_changes_nothing:
  assumes "exec ext c s = Inl e"
  shows "transact ext c s = s \<and>
    (e = Require ''Invalid report ID'' \<or> e = Require ''Invalid analysis ID'' \<or>
     e = Require ''No data for area'' \<or> e = Require ''Already revealed'' \<or>
     e = Require ''Invalid request'' \<or> e = InvalidProof \<or> e = MalformedPayload \<or>
     e = Panic 0x11 \<or> e = Panic 0x32)"
  using assms exec_errors [OF assms] by (simp add: transact_def)

theorem failure_changes_nothing_witness:
  "exec plain (RequestRiskAnalysis 14 4) requested = Inl (Require ''Invalid report ID'') \<and>
   transact plain (RequestRiskAnalysis 14 4) requested = requested \<and>
   exec plain (CalculateRiskScore 99 payload_70 accepted) requested =
     Inl (Require ''Invalid request'') \<and>
   transact plain (CalculateRiskScore 99 payload_70 accepted) requested = requested \<and>
   exec plain (CalculateRiskScore 7 payload_70 []) requested = Inl InvalidProof \<and>
   transact plain (CalculateRiskScore 7 payload_70 []) requested = requested \<and>
   exec plain (CalculateRiskScore 7 [] accepted) requested = Inl MalformedPayload \<and>
   transact plain (CalculateRiskScore 7 [] accepted) requested = requested \<and>
   exec plain (RequestAnalysisDecryption 14 1) revealed = Inl (Require ''Already revealed'') \<and>
   transact plain (RequestAnalysisDecryption 14 1) revealed = revealed"
  using failure_changes_nothing [OF failures_eval(1), THEN conjunct1]
    failure_changes_nothing [OF failures_eval(2), THEN conjunct1]
    failure_changes_nothing [OF failures_eval(3), THEN conjunct1]
    failure_changes_nothing [OF failures_eval(4), THEN conjunct1]
    failure_changes_nothing [OF failures_eval(5), THEN conjunct1] failures_eval
  by blast

text \<open>
  C10. \<open>requestRiskAnalysis(0)\<close> always succeeds and records 0 for its request id;
  when \<open>requestAreaStats(0)\<close> succeeds it records 0 too. From then on, through every
  sequence of transactions in which the oracle does not give the same request id to
  another dispatch, the callback (\<open>calculateRiskScore\<close>, respectively
  \<open>decryptAreaStats\<close>) for that request id fails with \<^verbatim>\<open>Invalid request\<close>, whatever
  the payload and the proof.
\<close>

theorem zero_target_never_resolves:
  "(\<exists>s'. requestRiskAnalysis reqId 0 s = Inr s' \<and> requestToReportId s' reqId = 0 \<and>
      (list_all (\<lambda>c. dispatched c \<noteq> Some reqId) cs \<longrightarrow>
         calculateRiskScore ext reqId cleartexts proof (run ext cs s') =
           Inl (Require ''Invalid request''))) \<and>
   (requestAreaStats ext reqId 0 s = Inr s'' \<and>
    list_all (\<lambda>c. dispatched c \<noteq> Some reqId) cs \<longrightarrow>
      requestToAnalysisId s'' reqId = 0 \<and>
      decryptAreaStats ext reqId cleartexts proof (run ext cs s'') =
        Inl (Require ''Invalid request''))"
proof (intro conjI impI)
  let ?s' = "s\<lparr> requestToReportId := (requestToReportId s)(reqId := 0),
              emitted := emitted s @ [AnalysisRequested 0],
              decryptionRequests := decryptionRequests s @
                [(reqId, [encryptedHygieneScore (inspectionReports s 0),
               encryptedFoodSafetyScore (inspectionReports s 0),
               encryptedFacilityScore (inspectionReports s 0),
               encryptedLocationCode (inspectionReports s 0)], calculateRiskScore_selector)] \<rparr>"
  have "requestRiskAnalysis reqId 0 s = Inr ?s'"
    by (simp add: requestRiskAnalysis_def)
  moreover have "requestToReportId ?s' reqId = 0" by simp
  moreover have "list_all (\<lambda>c. dispatched c \<noteq> Some reqId) cs \<longrightarrow>
         calculateRiskScore ext reqId cleartexts proof (run ext cs ?s') =
           Inl (Require ''Invalid request'')"
  proof
    assume "list_all (\<lambda>c. dispatched c \<noteq> Some reqId) cs"
    from pending_kept_run [OF this, of ext ?s']
    show "calculateRiskScore ext reqId cleartexts proof (run ext cs ?s') =
           Inl (Require ''Invalid request'')"
      by (simp add: calculateRiskScore_def)
  qed
  ultimately show "\<exists>s'. requestRiskAnalysis reqId 0 s = Inr s' \<and> requestToReportId s' reqId = 0 \<and>
      (list_all (\<lambda>c. dispatched c \<noteq> Some reqId) cs \<longrightarrow>
         calculateRiskScore ext reqId cleartexts proof (run ext cs s') =
           Inl (Require ''Invalid request''))"
    by blast
next
  assume a: "requestAreaStats ext reqId 0 s = Inr s'' \<and>
    list_all (\<lambda>c. dispatched c \<noteq> Some reqId) cs"
  from requestAreaStats_Inr(2) [OF a [THEN conjunct1]]
  show z: "requestToAnalysisId s'' reqId = 0" by simp
  from pending_kept_run [OF a [THEN conjunct2], of ext s''] z
  show "decryptAreaStats ext reqId cleartexts proof (run ext cs s'') =
        Inl (Require ''Invalid request'')"
    by (simp add: decryptAreaStats_def)
qed

theorem zero_target_never_resolves_witness:
  "list_all (\<lambda>c. dispatched c \<noteq> Some 14)
     [CalculateRiskScore 7 payload_70 accepted, RequestRiskAnalysis 15 1] \<and>
   (\<exists>s'. requestRiskAnalysis 14 0 requested = Inr s' \<and> requestToReportId s' 14 = 0 \<and>
      calculateRiskScore plain 14 payload_70 accepted
        (run plain [CalculateRiskScore 7 payload_70 accepted, RequestRiskAnalysis 15 1] s') =
          Inl (Require ''Invalid request'')) \<and>
   requestAreaStats plain 13 0 area0_resolved = Inr area0_requested \<and>
   list_all (\<lambda>c. dispatched c \<noteq> Some 13)
     [CalculateRiskScore 7 payload_70 accepted, RequestRiskAnalysis 15 1] \<and>
   requestToAnalysisId area0_requested 13 = 0 \<and>
   decryptAreaStats plain 13 payload_stats accepted
     (run plain [CalculateRiskScore 7 payload_70 accepted, RequestRiskAnalysis 15 1]
        area0_requested) = Inl (Require ''Invalid request'')"
proof -
  let ?cs = "[CalculateRiskScore 7 payload_70 accepted, RequestRiskAnalysis 15 1]"
  have later14: "list_all (\<lambda>c. dispatched c \<noteq> Some 14) ?cs"
    and later13: "list_all (\<lambda>c. dispatched c \<noteq> Some 13) ?cs"
    by simp_all
  note report = zero_target_never_resolves [where reqId = 14 and s = requested and cs = ?cs
      and ext = plain and cleartexts = payload_70 and ?proof = accepted, THEN conjunct1]
  have pre: "requestAreaStats plain 13 0 area0_resolved = Inr area0_requested \<and>
      list_all (\<lambda>c. dispatched c \<noteq> Some 13) ?cs"
    using later13 area0_requested_step by blast
  note area = zero_target_never_resolves [where reqId = 13 and s = area0_resolved
      and s'' = area0_requested and cs = ?cs and ext = plain and cleartexts = payload_stats
      and ?proof = accepted, THEN conjunct2, THEN mp, OF pre]
  from report later14 have "\<exists>s'. requestRiskAnalysis 14 0 requested = Inr s' \<and>
      requestToReportId s' 14 = 0 \<and>
      calculateRiskScore plain 14 payload_70 accepted (run plain ?cs s') =
        Inl (Require ''Invalid request'')"
    by blast
  with area pre later14 show ?thesis by blast
qed

end
